theory Spec2Isabelle
  imports Complex_Main
begin

section \<open>Vectors and matrices\<close>

text \<open>
  The program builds on Blender's \<^verbatim>\<open>mathutils.Vector\<close> and \<^verbatim>\<open>mathutils.Matrix\<close> and on
  Python's \<^verbatim>\<open>math\<close> module. Floating-point numbers are idealised as real numbers: finite
  values, computed without rounding, overflow or underflow. Each library operation is
  given its documented mathematical meaning, and the one test on magnitudes that the
  library makes, the threshold below which a vector is not normalised, is kept.
  A \<^verbatim>\<open>Vector\<close> is a triple of coordinates.
\<close>

datatype Vector = Vector (vx: real) (vy: real) (vz: real)

text \<open>\<^verbatim>\<open>a + b\<close>, \<^verbatim>\<open>a - b\<close> and \<^verbatim>\<open>a * k\<close> on vectors.\<close>

fun vadd :: "Vector \<Rightarrow> Vector \<Rightarrow> Vector" where
  "vadd (Vector a b c) (Vector d e f) = Vector (a + d) (b + e) (c + f)"

fun vsub :: "Vector \<Rightarrow> Vector \<Rightarrow> Vector" where
  "vsub (Vector a b c) (Vector d e f) = Vector (a - d) (b - e) (c - f)"

fun smult :: "Vector \<Rightarrow> real \<Rightarrow> Vector" where
  "smult (Vector a b c) k = Vector (a * k) (b * k) (c * k)"

fun dot :: "Vector \<Rightarrow> Vector \<Rightarrow> real" where
  "dot (Vector a b c) (Vector d e f) = a * d + b * e + c * f"

text \<open>\<^verbatim>\<open>a.cross(b)\<close>.\<close>

fun cross :: "Vector \<Rightarrow> Vector \<Rightarrow> Vector" where
  "cross (Vector a b c) (Vector d e f) = Vector (b * f - c * e) (c * d - a * f) (a * e - b * d)"

text \<open>\<^verbatim>\<open>v.length\<close>.\<close>

definition vec_length :: "Vector \<Rightarrow> real" where
  "vec_length v = sqrt (dot v v)"

text \<open>
  The library's threshold of normalisation: a vector whose squared length is not greater
  than \<open>1e-35\<close> counts as a vector of length zero.
\<close>

definition normalize_eps :: real where
  "normalize_eps = 1 / 10 ^ 35"

text \<open>
  \<^verbatim>\<open>v.normalized()\<close> (and the in-place \<^verbatim>\<open>v.normalize()\<close>): the vector scaled to length 1
  when its squared length is greater than the threshold; any other vector, the zero
  vector among them, becomes the zero vector, without an error.
\<close>

definition normalized :: "Vector \<Rightarrow> Vector" where
  "normalized v =
     (if normalize_eps < dot v v then smult v (1 / vec_length v) else Vector 0 0 0)"

text \<open>
  A \<^verbatim>\<open>Matrix\<close> is kept as its three rows. The program only ever multiplies its matrices
  with three-dimensional vectors, where the fourth row and column of a 4x4 rotation
  matrix play no part, so \<^verbatim>\<open>to_4x4()\<close> is the identity of the model.
\<close>

datatype Matrix = Matrix Vector Vector Vector

fun transposed :: "Matrix \<Rightarrow> Matrix" where
  "transposed (Matrix (Vector a b c) (Vector d e f) (Vector g h i)) =
     Matrix (Vector a d g) (Vector b e h) (Vector c f i)"

text \<open>\<^verbatim>\<open>M @ v\<close>, which is also what \<^verbatim>\<open>v.rotate(M)\<close> stores in \<^verbatim>\<open>v\<close>.\<close>

fun matvec :: "Matrix \<Rightarrow> Vector \<Rightarrow> Vector" where
  "matvec (Matrix r1 r2 r3) v = Vector (dot r1 v) (dot r2 v) (dot r3 v)"

text \<open>\<^verbatim>\<open>math.radians\<close> and \<^verbatim>\<open>math.degrees\<close>.\<close>

definition radians :: "real \<Rightarrow> real" where
  "radians a = a * pi / 180"

definition degrees :: "real \<Rightarrow> real" where
  "degrees a = a * 180 / pi"

text \<open>\<^verbatim>\<open>math.atan2(y, x)\<close>, the angle of the point \<open>(x, y)\<close> in \<open>(-pi, pi]\<close>, 0 at the origin.\<close>

definition atan2 :: "real \<Rightarrow> real \<Rightarrow> real" where
  "atan2 y x =
     (if 0 < x then arctan (y / x)
      else if x < 0 \<and> 0 \<le> y then arctan (y / x) + pi
      else if x < 0 then arctan (y / x) - pi
      else if 0 < y then pi / 2
      else if y < 0 then - pi / 2
      else 0)"

text \<open>\<^verbatim>\<open>Matrix.Rotation(t, 4, 'Z')\<close>: the rotation by the angle \<open>t\<close> (radians) about the z axis.\<close>

definition Rotation_Z :: "real \<Rightarrow> Matrix" where
  "Rotation_Z t = Matrix (Vector (cos t) (- sin t) 0) (Vector (sin t) (cos t) 0) (Vector 0 0 1)"

text \<open>
  \<^verbatim>\<open>Matrix.Rotation(t, 4, axis)\<close> with a vector as axis: the rotation by \<open>t\<close> about the
  normalised axis (Rodrigues' formula); the library returns the identity matrix for an
  axis that its normalisation takes for a vector of length zero.
\<close>

definition Rotation :: "real \<Rightarrow> Vector \<Rightarrow> Matrix" where
  "Rotation t axis =
     (if normalize_eps < dot axis axis then
        (let n = normalized axis; x = vx n; y = vy n; z = vz n;
             co = cos t; si = sin t; ico = 1 - co
         in Matrix (Vector (x * x * ico + co) (x * y * ico - z * si) (x * z * ico + y * si))
                   (Vector (x * y * ico + z * si) (y * y * ico + co) (y * z * ico - x * si))
                   (Vector (x * z * ico - y * si) (y * z * ico + x * si) (z * z * ico + co)))
      else Matrix (Vector 1 0 0) (Vector 0 1 0) (Vector 0 0 1))"

section \<open>The frame of a vector\<close>

text \<open>\<^verbatim>\<open>getTNBfromVector(v)\<close>, returning the triple \<open>(T, N, B)\<close>.\<close>

definition getTNBfromVector :: "Vector \<Rightarrow> Vector \<times> Vector \<times> Vector" where
  "getTNBfromVector v =
     (let N = normalized v;
          B = cross N (Vector 0 0 (- 1))
      in if vec_length B = 0 then (Vector 0 1 0, N, Vector 1 0 0)
         else (let B' = normalized B;
                   T = normalized (cross N B')
               in (T, N, B')))"

section \<open>The L-system\<close>

text \<open>
  The rewriting rules are a dictionary from symbols to strings;
  \<^verbatim>\<open>rules.get(char, char)\<close> is the replacement of a symbol, the symbol itself when it
  has no rule.
\<close>

type_synonym rules = "char \<rightharpoonup> string"

definition rules_get :: "rules \<Rightarrow> char \<Rightarrow> string" where
  "rules_get rules c = (case rules c of None \<Rightarrow> [c] | Some r \<Rightarrow> r)"

text \<open>One round of the rewriting (lines 49 to 52): the inner loop over the current string.\<close>

fun rewrite :: "rules \<Rightarrow> string \<Rightarrow> string \<Rightarrow> string" where
  "rewrite rules next_string [] = next_string"
| "rewrite rules next_string (c # cs) = rewrite rules (next_string @ rules_get rules c) cs"

text \<open>The outer loop \<^verbatim>\<open>for _ in range(iterations)\<close> (lines 47 to 52).\<close>

fun expand :: "rules \<Rightarrow> nat \<Rightarrow> string \<Rightarrow> string" where
  "expand rules 0 current_string = current_string"
| "expand rules (Suc n) current_string = expand rules n (rewrite rules [] current_string)"

text \<open>The grammar that \<^verbatim>\<open>geometry\<close> passes to the emitter (line 145).\<close>

definition koch_axiom :: string where
  "koch_axiom = ''F++F++F''"

definition koch_rules :: rules where
  "koch_rules = [CHR ''F'' \<mapsto> ''F-F++F-F'']"

section \<open>The mesh buffer\<close>

text \<open>
  The \<^verbatim>\<open>bmesh\<close> object is a store: \<open>verts\<close> holds the coordinates \<^verbatim>\<open>co\<close> of every vertex
  in creation order, and a \<^verbatim>\<open>BMVert\<close> reference is the index of its vertex in that list,
  so that the assignments to \<^verbatim>\<open>vert.co\<close> at the end of \<^verbatim>\<open>draw_lsystem\<close> update the mesh
  through the references kept in \<^verbatim>\<open>vert_list\<close>. A face is the list of its vertices.
  \<open>printed\<close> collects the lines written by \<^verbatim>\<open>print\<close>. The two counters are ghost state:
  \<open>emitter_calls\<close> counts the calls of \<^verbatim>\<open>draw_lsystem\<close> and \<open>face_attempts\<close> the calls of
  \<^verbatim>\<open>bm.faces.new\<close>; nothing in the program reads them.
\<close>

record state =
  verts :: "Vector list"
  faces :: "nat list list"
  printed :: "string list"
  emitter_calls :: nat
  face_attempts :: nat

text \<open>\<^verbatim>\<open>bmesh.new()\<close>.\<close>

definition bmesh_new :: state where
  "bmesh_new = \<lparr>verts = [], faces = [], printed = [], emitter_calls = 0, face_attempts = 0\<rparr>"

datatype error = ZeroDivisionError | ValueError

text \<open>\<^verbatim>\<open>bm.verts.new(co)\<close>: the new vertex and the mesh that holds it.\<close>

definition verts_new :: "Vector \<Rightarrow> state \<Rightarrow> nat \<times> state" where
  "verts_new co bm = (length (verts bm), bm\<lparr>verts := verts bm @ [co]\<rparr>)"

text \<open>
  Whether the geometry backend builds a face from a vertex list is decided outside this
  program. It is a parameter of the model: a predicate of the vertex coordinates, the
  faces of the mesh and the vertex list, true when \<^verbatim>\<open>bm.faces.new\<close> builds the face and false
  when it raises \<^verbatim>\<open>ValueError\<close>.
\<close>

type_synonym backend = "Vector list \<Rightarrow> nat list list \<Rightarrow> nat list \<Rightarrow> bool"

definition faces_new :: "backend \<Rightarrow> nat list \<Rightarrow> state \<Rightarrow> error + state" where
  "faces_new accepts vert_list bm =
     (if accepts (verts bm) (faces bm) vert_list
      then Inr (bm\<lparr>faces := faces bm @ [vert_list]\<rparr>)
      else Inl ValueError)"

text \<open>A backend that builds every face.\<close>

definition accept_all :: backend where
  "accept_all vs fs vert_list = True"

text \<open>
  A computation on the mesh returns the new mesh, or the exception it raised together
  with the mesh as it was at that moment.
\<close>

type_synonym result = "(error \<times> state) + state"

section \<open>The emitter\<close>

text \<open>
  The walk over the expanded string (lines 54 to 65), on the loop's variables
  \<^verbatim>\<open>position\<close>, \<^verbatim>\<open>direction\<close>, \<^verbatim>\<open>vert_list\<close> and the mesh.
\<close>

fun walk :: "real \<Rightarrow> real \<Rightarrow> string \<Rightarrow> Vector \<times> Vector \<times> nat list \<times> state
    \<Rightarrow> Vector \<times> Vector \<times> nat list \<times> state" where
  "walk angle distance [] t = t"
| "walk angle distance (char # cs) (position, direction, vert_list, bm) =
     (if char = CHR ''F'' then
        (let next_position = vadd position (smult direction distance);
             (vert, bm') = verts_new next_position bm
         in walk angle distance cs (next_position, direction, vert_list @ [vert], bm'))
      else if char = CHR ''+'' then
        walk angle distance cs
          (position, matvec (Rotation_Z (radians angle)) direction, vert_list, bm)
      else if char = CHR ''-'' then
        walk angle distance cs
          (position, matvec (Rotation_Z (- radians angle)) direction, vert_list, bm)
      else walk angle distance cs (position, direction, vert_list, bm))"

text \<open>The loop of lines 75 to 78 over \<^verbatim>\<open>vert_list\<close>.\<close>

fun twist :: "Matrix \<Rightarrow> Vector \<Rightarrow> nat list \<Rightarrow> state \<Rightarrow> state" where
  "twist rotation_matrix position [] bm = bm"
| "twist rotation_matrix position (vert # rest) bm =
     (let co1 = vsub (verts bm ! vert) position;
          co2 = matvec rotation_matrix co1;
          co3 = vadd co2 position
      in twist rotation_matrix position rest (bm\<lparr>verts := (verts bm)[vert := co3]\<rparr>))"

text \<open>
  \<^verbatim>\<open>draw_lsystem\<close>. \<^verbatim>\<open>range(iterations)\<close> is empty for a negative number. The parameter
  \<^verbatim>\<open>position\<close> is reassigned by the walk, so that lines 73 to 78 read the position of the
  cursor after the walk. Only \<^verbatim>\<open>ValueError\<close> is caught at line 70.
\<close>

definition draw_lsystem :: "backend \<Rightarrow> state \<Rightarrow> Vector \<Rightarrow> string \<Rightarrow> rules \<Rightarrow> int \<Rightarrow> real \<Rightarrow> real
    \<Rightarrow> real \<Rightarrow> result" where
  "draw_lsystem accepts bm position axiom rules iterations angle distance rotation_angle =
     (let current_string = expand rules (nat iterations) axiom;
          (position', direction, vert_list, bm1) =
             walk angle distance current_string
               (position, Vector 0 1 0, [], bm\<lparr>emitter_calls := emitter_calls bm + 1\<rparr>)
      in if length vert_list > 2 then
           (let bm2 = bm1\<lparr>face_attempts := face_attempts bm1 + 1\<rparr>
            in case (case faces_new accepts vert_list bm2 of
                       Inr bm3 \<Rightarrow> Inr bm3
                     | Inl ValueError \<Rightarrow>
                         Inr (bm2\<lparr>printed := printed bm2 @
                                [''Could not create a face with the given vertices.'']\<rparr>)
                     | Inl e \<Rightarrow> Inl (e, bm2)) of
                 Inl e \<Rightarrow> Inl e
               | Inr bm4 \<Rightarrow>
                   (let rotation_matrix = Rotation (radians rotation_angle) (normalized position')
                    in Inr (twist rotation_matrix position' vert_list bm4)))
         else Inr bm1)"

section \<open>The placement of flowers and petals\<close>

definition GOLDEN_ANGLE :: real where
  "GOLDEN_ANGLE = pi * (3 - sqrt 5)"

text \<open>The fields that \<^verbatim>\<open>__init__\<close> sets, and their values there.\<close>

record config =
  self_n :: nat
  self_m :: nat
  self_r0 :: real
  self_r1 :: real
  self_r2 :: real
  self_h0 :: real
  self_h1 :: real

definition default_config :: config where
  "default_config =
     \<lparr>self_n = 200, self_m = 10, self_r0 = 10, self_r1 = 10, self_r2 = 1,
      self_h0 = 50, self_h1 = 2\<rparr>"

text \<open>Python's \<^verbatim>\<open>a / b\<close> raises \<^verbatim>\<open>ZeroDivisionError\<close> when \<open>b\<close> is zero.\<close>

definition py_div :: "real \<Rightarrow> real \<Rightarrow> error + real" where
  "py_div a b = (if b = 0 then Inl ZeroDivisionError else Inr (a / b))"

text \<open>The angle \<^verbatim>\<open>theta\<close> of line 117 (and of line 130, for the petal \<open>j\<close>).\<close>

definition theta_of :: "nat \<Rightarrow> real" where
  "theta_of i = real i * GOLDEN_ANGLE"

text \<open>Lines 116 to 122: \<^verbatim>\<open>t0\<close> and the anchor \<^verbatim>\<open>p0\<close> of the flower \<open>i\<close>.\<close>

definition flower_anchor :: "config \<Rightarrow> nat \<Rightarrow> error + (real \<times> Vector)" where
  "flower_anchor self i =
     (case py_div (real i) (real (self_n self)) of
        Inl e \<Rightarrow> Inl e
      | Inr t0 \<Rightarrow>
          (let r0 = t0 * self_r0 self; theta = theta_of i;
               x = r0 * cos theta;
               y = r0 * sin theta
           in case py_div (self_h0 self) (self_r0 self * self_r0 self) of
                Inl e \<Rightarrow> Inl e
              | Inr q \<Rightarrow> Inr (t0, Vector x y (self_h0 self / 2 - q * r0 * r0))))"

text \<open>Lines 128 to 135: the local position \<^verbatim>\<open>p1\<close> of the petal \<open>j\<close> of a flower with \<^verbatim>\<open>t0\<close>.\<close>

definition petal_local :: "config \<Rightarrow> real \<Rightarrow> nat \<Rightarrow> error + Vector" where
  "petal_local self t0 j =
     (case py_div (real j) (real (self_m self)) of
        Inl e \<Rightarrow> Inl e
      | Inr t1 \<Rightarrow>
          (let t2 = 0.4 + 0.6 * t0;
               r1 = t2 * t1 * self_r1 self; theta = theta_of j;
               x = r1 * cos theta;
               y = r1 * sin theta
           in case py_div (self_h1 self) (self_r1 self * self_r1 self) of
                Inl e \<Rightarrow> Inl e
              | Inr q \<Rightarrow> Inr (Vector x y (self_h1 self - q * r1 * r1))))"

text \<open>A \<^verbatim>\<open>for\<close> loop over a list of indices, left at the first exception.\<close>

fun for_range :: "nat list \<Rightarrow> (nat \<Rightarrow> state \<Rightarrow> result) \<Rightarrow> state \<Rightarrow> result" where
  "for_range [] body bm = Inr bm"
| "for_range (i # is) body bm =
     (case body i bm of Inl e \<Rightarrow> Inl e | Inr bm' \<Rightarrow> for_range is body bm')"

text \<open>The body of the inner loop (lines 128 to 145).\<close>

definition petal :: "backend \<Rightarrow> config \<Rightarrow> real \<Rightarrow> Vector \<Rightarrow> Matrix \<Rightarrow> nat \<Rightarrow> state \<Rightarrow> result" where
  "petal accepts self t0 p0 M0 j bm =
     (case petal_local self t0 j of
        Inl e \<Rightarrow> Inl (e, bm)
      | Inr p1 \<Rightarrow>
          (let (T1, N1, B1) = getTNBfromVector p1;
               M1 = transposed (Matrix T1 B1 N1);
               p = vadd p0 (matvec M0 p1);
               center_angle = atan2 (vy p) (vx p);
               angle_offset = 45;
               rotation_angle = degrees center_angle - angle_offset
           in draw_lsystem accepts bm p koch_axiom koch_rules 4 60 0.05 rotation_angle))"

text \<open>The body of the outer loop (lines 116 to 145).\<close>

definition flower :: "backend \<Rightarrow> config \<Rightarrow> nat \<Rightarrow> state \<Rightarrow> result" where
  "flower accepts self i bm =
     (case flower_anchor self i of
        Inl e \<Rightarrow> Inl (e, bm)
      | Inr (t0, p0) \<Rightarrow>
          (let (T0, N0, B0) = getTNBfromVector p0;
               M0 = transposed (Matrix T0 B0 N0)
           in for_range [0..<self_m self] (petal accepts self t0 p0 M0) bm))"

text \<open>\<^verbatim>\<open>PhyllotaxisFlower.geometry\<close>.\<close>

definition geometry :: "backend \<Rightarrow> config \<Rightarrow> result" where
  "geometry accepts self = for_range [0..<self_n self] (flower accepts self) bmesh_new"

section \<open>Auxiliary notions for the statements\<close>

text \<open>The number of \<open>F\<close> symbols of a string: the number of vertices that its walk emits.\<close>

definition count_F :: "string \<Rightarrow> nat" where
  "count_F cs = length (filter (\<lambda>c. c = CHR ''F'') cs)"

text \<open>A grammar without rules.\<close>

definition no_rules :: rules where
  "no_rules = Map.empty"

text \<open>
  \<open>advance k bm bm'\<close>: from \<open>bm\<close> to \<open>bm'\<close> the emitter was called \<open>k\<close> times, it called
  \<^verbatim>\<open>bm.faces.new\<close> \<open>k\<close> times, and each of these calls added a face or printed the message.
\<close>

definition advance :: "nat \<Rightarrow> state \<Rightarrow> state \<Rightarrow> bool" where
  "advance k bm bm' \<longleftrightarrow>
     emitter_calls bm' = emitter_calls bm + k
     \<and> face_attempts bm' = face_attempts bm + k
     \<and> length (faces bm') + length (printed bm') = length (faces bm) + length (printed bm) + k"

section \<open>Properties of the frame\<close>

lemma dot_self_nonneg: "0 \<le> dot v v"
  by (cases v) simp

lemma dot_self_zero_iff: "dot v v = 0 \<longleftrightarrow> v = Vector 0 0 0"
proof (cases v)
  case (Vector a b c)
  have "a * a + b * b + c * c = 0 \<longleftrightarrow> a = 0 \<and> b = 0 \<and> c = 0"
    by (smt (verit) mult_eq_0_iff zero_le_square)
  with Vector show ?thesis by simp
qed

lemma vec_length_zero_iff: "vec_length v = 0 \<longleftrightarrow> v = Vector 0 0 0"
  by (simp add: vec_length_def dot_self_zero_iff)

lemma normalize_eps_pos: "0 < normalize_eps"
  by (simp add: normalize_eps_def)

lemma normalized_zero: "normalized (Vector 0 0 0) = Vector 0 0 0"
  by (simp add: normalized_def)

lemma dot_commute: "dot a b = dot b a"
  by (cases a; cases b) simp

lemma dot_smult_left: "dot (smult a k) b = k * dot a b"
  by (cases a; cases b) (simp add: algebra_simps)

lemma dot_smult_right: "dot a (smult b k) = k * dot a b"
  by (cases a; cases b) (simp add: algebra_simps)

lemma dot_cross_first: "dot (cross a b) a = 0"
  by (cases a; cases b) (simp add: algebra_simps)

lemma dot_cross_second: "dot (cross a b) b = 0"
  by (cases a; cases b) (simp add: algebra_simps)

lemma cross_lagrange: "dot (cross a b) (cross a b) = dot a a * dot b b - dot a b * dot a b"
  by (cases a; cases b) (simp add: algebra_simps)

lemma vec_length_nonneg: "0 \<le> vec_length v"
  by (simp add: vec_length_def dot_self_nonneg)

lemma vec_length_square: "vec_length v * vec_length v = dot v v"
  by (simp add: vec_length_def dot_self_nonneg)

lemma vec_length_one_iff: "vec_length v = 1 \<longleftrightarrow> dot v v = 1"
  by (simp add: vec_length_def)

lemma vec_length_pos: "normalize_eps < dot v v \<Longrightarrow> 0 < vec_length v"
  using normalize_eps_pos by (simp add: vec_length_def)

lemma dot_normalized_self:
  assumes "normalize_eps < dot v v"
  shows "dot (normalized v) (normalized v) = 1"
proof -
  have pos: "vec_length v \<noteq> 0"
    using vec_length_pos [OF assms] by simp
  have "dot (normalized v) (normalized v) = (1 / vec_length v) * ((1 / vec_length v) * dot v v)"
    using assms by (simp add: normalized_def dot_smult_left dot_smult_right)
  also have "\<dots> = (1 / vec_length v) * ((1 / vec_length v) * (vec_length v * vec_length v))"
    by (simp only: vec_length_square)
  also have "\<dots> = 1"
    using pos by simp
  finally show ?thesis .
qed

lemma vec_length_normalized: "normalize_eps < dot v v \<Longrightarrow> vec_length (normalized v) = 1"
  by (simp add: vec_length_one_iff dot_normalized_self)

lemma one_above_eps: "normalize_eps < 1"
  by (simp add: normalize_eps_def)

lemma normalized_unit:
  assumes "vec_length v = 1"
  shows "normalized v = v"
proof -
  have "dot v v = 1"
    using assms by (simp add: vec_length_one_iff)
  then have "normalize_eps < dot v v"
    using one_above_eps by simp
  then show ?thesis
    using assms by (cases v) (simp add: normalized_def)
qed

lemma dot_cross_down:
  "dot (cross (smult d k) (Vector 0 0 (- 1))) (cross (smult d k) (Vector 0 0 (- 1)))
     = k * k * (vx d * vx d + vy d * vy d)"
  by (cases d) (simp add: algebra_simps)

lemma getTNB_fallback_frame:
  assumes len: "vec_length N = 1" and B0: "vec_length (cross N (Vector 0 0 (- 1))) = 0"
  shows "dot (Vector 0 1 0) N = 0 \<and> dot N (Vector 1 0 0) = 0"
proof (cases N)
  case (Vector a b c)
  with B0 have "Vector (- b) a 0 = Vector 0 0 0"
    by (simp add: vec_length_zero_iff)
  with Vector show ?thesis by simp
qed

text \<open>
  C6, as the code has it. The library takes a vector for one of length zero when its
  squared length is at most \<open>1e-35\<close>. For every direction vector \<open>d\<close> whose squared length
  lies above \<open>1e-35\<close> and at most at \<open>1e35\<close> (well inside the range of the library's
  single-precision numbers), and that either lies on the z axis or is off the z axis by
  more than the threshold, \<open>dx\<^sup>2 + dy\<^sup>2 > 1e-35 * |d|\<^sup>2\<close>, the three vectors that
  \<^verbatim>\<open>getTNBfromVector(d)\<close> returns have length 1 (so also within 1e-6 of 1), are pairwise
  orthogonal with dot products 0, and \<open>N\<close> is the normalised \<open>d\<close>. Lengths and products are
  those of real arithmetic.
\<close>

theorem getTNB_orthonormal:
  assumes big: "normalize_eps < dot d d" and range: "dot d d \<le> 10 ^ 35"
    and off: "(vx d = 0 \<and> vy d = 0) \<or> normalize_eps * dot d d < vx d * vx d + vy d * vy d"
  shows "(case getTNBfromVector d of (T, N, B) \<Rightarrow>
           vec_length T = 1 \<and> vec_length N = 1 \<and> vec_length B = 1
           \<and> dot T N = 0 \<and> dot T B = 0 \<and> dot N B = 0
           \<and> N = normalized d)"
proof -
  define N where "N = normalized d"
  define B0 where "B0 = cross N (Vector 0 0 (- 1))"
  have lenN: "vec_length N = 1"
    using big by (simp add: N_def vec_length_normalized)
  have Nd: "N = smult d (1 / vec_length d)"
    using big by (simp add: N_def normalized_def)
  have dpos: "0 < dot d d"
    using big normalize_eps_pos by simp
  have B0len: "dot B0 B0 = (vx d * vx d + vy d * vy d) / dot d d"
  proof -
    have "dot B0 B0 = 1 / vec_length d * (1 / vec_length d) * (vx d * vx d + vy d * vy d)"
      unfolding B0_def Nd by (rule dot_cross_down)
    also have "\<dots> = (vx d * vx d + vy d * vy d) / (vec_length d * vec_length d)"
      by simp
    finally show ?thesis
      by (simp only: vec_length_square)
  qed
  show ?thesis
  proof (cases "vec_length B0 = 0")
    case True
    have "getTNBfromVector d = (Vector 0 1 0, N, Vector 1 0 0)"
      using True by (simp add: getTNBfromVector_def N_def B0_def)
    moreover have "dot (Vector 0 1 0) N = 0 \<and> dot N (Vector 1 0 0) = 0"
      using getTNB_fallback_frame lenN True by (simp add: B0_def)
    ultimately show ?thesis
      using lenN by (simp add: N_def vec_length_def)
  next
    case False
    then have "dot B0 B0 \<noteq> 0"
      by (simp add: vec_length_def)
    then have "\<not> (vx d = 0 \<and> vy d = 0)"
      by (auto simp: B0len)
    with off have "normalize_eps * dot d d < vx d * vx d + vy d * vy d"
      by blast
    then have B0big: "normalize_eps < dot B0 B0"
      using dpos by (simp add: B0len pos_less_divide_eq)
    define B where "B = normalized B0"
    define T0 where "T0 = cross N B"
    have tnb: "getTNBfromVector d = (normalized T0, N, B)"
      using False by (simp add: getTNBfromVector_def N_def B0_def B_def T0_def Let_def)
    have lenB: "vec_length B = 1"
      using B0big by (simp add: B_def vec_length_normalized)
    have NB: "dot N B = 0"
      using B0big dot_cross_first [of N "Vector 0 0 (- 1)"]
      by (simp add: B_def normalized_def dot_smult_right dot_commute B0_def)
    have "dot T0 T0 = 1"
      using lenN lenB NB by (simp add: T0_def cross_lagrange vec_length_one_iff)
    then have lenT0: "vec_length T0 = 1"
      by (simp add: vec_length_one_iff)
    then have T: "normalized T0 = T0"
      by (rule normalized_unit)
    have "dot T0 N = 0" "dot T0 B = 0"
      by (simp_all add: T0_def dot_cross_first dot_cross_second)
    with tnb T lenT0 lenN lenB NB show ?thesis
      by (simp add: N_def)
  qed
qed

theorem getTNB_orthonormal_witness:
  "normalize_eps < dot (Vector 3 4 0) (Vector 3 4 0)
   \<and> dot (Vector 3 4 0) (Vector 3 4 0) \<le> 10 ^ 35
   \<and> ((vx (Vector 3 4 0) = 0 \<and> vy (Vector 3 4 0) = 0)
       \<or> normalize_eps * dot (Vector 3 4 0) (Vector 3 4 0)
           < vx (Vector 3 4 0) * vx (Vector 3 4 0) + vy (Vector 3 4 0) * vy (Vector 3 4 0))
   \<and> (case getTNBfromVector (Vector 3 4 0) of (T, N, B) \<Rightarrow>
         vec_length T = 1 \<and> vec_length N = 1 \<and> vec_length B = 1
         \<and> dot T N = 0 \<and> dot T B = 0 \<and> dot N B = 0
         \<and> N = normalized (Vector 3 4 0))"
proof -
  have h1: "normalize_eps < dot (Vector 3 4 0) (Vector 3 4 0)"
    by (simp add: normalize_eps_def)
  have h2: "dot (Vector 3 4 0) (Vector 3 4 0) \<le> 10 ^ 35"
    by simp
  have h3: "(vx (Vector 3 4 0) = 0 \<and> vy (Vector 3 4 0) = 0)
       \<or> normalize_eps * dot (Vector 3 4 0) (Vector 3 4 0)
           < vx (Vector 3 4 0) * vx (Vector 3 4 0) + vy (Vector 3 4 0) * vy (Vector 3 4 0)"
    by (simp add: normalize_eps_def)
  from getTNB_orthonormal [OF h1 h2 h3] h1 h2 h3 show ?thesis
    by blast
qed

text \<open>
  C6 as stated fails on non-zero vectors that the library's normalisation takes for
  vectors of length zero. The vector \<open>(1e-20, 0, 0)\<close> is not zero and does not lie on the
  z axis; its squared length \<open>1e-40\<close> is below the threshold, so \<open>N\<close> is the zero vector
  and not a unit vector. For \<open>(1e-20, 0, 1)\<close> the vector \<open>N\<close> is a unit vector, but its
  cross product with \<open>(0,0,-1)\<close> is a non-zero vector below the threshold, so \<open>B\<close> and \<open>T\<close>
  are zero vectors.
\<close>

lemma getTNB_near_z:
  "getTNBfromVector (Vector (1 / 10 ^ 20) 0 1)
     = (Vector 0 0 0, normalized (Vector (1 / 10 ^ 20) 0 1), Vector 0 0 0)"
proof -
  define d where "d = Vector (1 / 10 ^ 20) 0 1"
  define L where "L = vec_length d"
  have dd: "dot d d = 1 + 1 / 10 ^ 40"
    by (simp add: d_def)
  have big: "normalize_eps < dot d d"
    by (simp add: dd normalize_eps_def)
  have Lpos: "0 < L"
    unfolding L_def using big by (rule vec_length_pos)
  have LL: "L * L = 1 + 1 / 10 ^ 40"
    by (simp add: L_def vec_length_square dd)
  have N: "normalized d = Vector (1 / 10 ^ 20 / L) 0 (1 / L)"
    using big by (simp add: normalized_def L_def [symmetric]) (simp add: d_def)
  define B0 where "B0 = cross (normalized d) (Vector 0 0 (- 1))"
  have B0: "B0 = Vector 0 (1 / 10 ^ 20 / L) 0"
    by (simp add: B0_def N)
  have nz: "vec_length B0 \<noteq> 0"
    using Lpos by (simp add: vec_length_zero_iff B0)
  have "dot B0 B0 = 1 / 10 ^ 40 / (L * L)"
    by (simp add: B0)
  also have "\<dots> \<le> 1 / 10 ^ 40"
    by (simp add: LL field_simps)
  also have "\<dots> \<le> normalize_eps"
    by (simp add: normalize_eps_def)
  finally have small: "\<not> normalize_eps < dot B0 B0"
    by simp
  have B: "normalized B0 = Vector 0 0 0"
    using small by (simp add: normalized_def)
  have T: "normalized (cross (normalized d) (Vector 0 0 0)) = Vector 0 0 0"
    by (simp add: N normalized_zero)
  have "getTNBfromVector d = (Vector 0 0 0, normalized d, Vector 0 0 0)"
    using nz B T by (simp add: getTNBfromVector_def Let_def B0_def [symmetric])
  then show ?thesis
    by (simp add: d_def)
qed

theorem getTNB_tiny_vector_not_unit:
  "Vector (1 / 10 ^ 20) 0 0 \<noteq> Vector 0 0 0
   \<and> getTNBfromVector (Vector (1 / 10 ^ 20) 0 0) = (Vector 0 1 0, Vector 0 0 0, Vector 1 0 0)
   \<and> vec_length (Vector 0 0 0) \<noteq> 1
   \<and> fst (getTNBfromVector (Vector (1 / 10 ^ 20) 0 1)) = Vector 0 0 0
   \<and> snd (snd (getTNBfromVector (Vector (1 / 10 ^ 20) 0 1))) = Vector 0 0 0"
proof -
  have N: "normalized (Vector (1 / 10 ^ 20) 0 0) = Vector 0 0 0"
    by (simp add: normalized_def normalize_eps_def)
  have a: "getTNBfromVector (Vector (1 / 10 ^ 20) 0 0) = (Vector 0 1 0, Vector 0 0 0, Vector 1 0 0)"
    unfolding getTNBfromVector_def Let_def N by (simp add: vec_length_def)
  have b: "Vector (1 / 10 ^ 20) 0 0 \<noteq> Vector 0 0 0"
    by simp
  have c: "vec_length (Vector 0 0 0) \<noteq> 1"
    by (simp add: vec_length_def)
  have d: "fst (getTNBfromVector (Vector (1 / 10 ^ 20) 0 1)) = Vector 0 0 0"
    unfolding getTNB_near_z by (rule fst_conv)
  have e: "snd (snd (getTNBfromVector (Vector (1 / 10 ^ 20) 0 1))) = Vector 0 0 0"
    unfolding getTNB_near_z by (simp only: snd_conv)
  from a b c d e show ?thesis
    by blast
qed

text \<open>
  C7: for \<open>d = k * (0,0,1)\<close> with \<open>k\<close> negative, \<^verbatim>\<open>getTNBfromVector(d)\<close> returns exactly the
  fallback frame \<open>B = (1,0,0)\<close>, \<open>T = (0,1,0)\<close>; its \<open>N\<close> is \<open>(0,0,-1)\<close>, or the zero vector when
  \<open>k\<^sup>2\<close> is not above the threshold of normalisation.
\<close>

theorem getTNB_negative_z:
  assumes k: "k < 0"
  shows "getTNBfromVector (smult (Vector 0 0 1) k)
           = (Vector 0 1 0,
              if normalize_eps < k * k then Vector 0 0 (- 1) else Vector 0 0 0,
              Vector 1 0 0)"
proof -
  have len: "vec_length (Vector 0 0 k) = - k"
    using k by (simp add: vec_length_def)
  have N: "normalized (Vector 0 0 k)
             = (if normalize_eps < k * k then Vector 0 0 (- 1) else Vector 0 0 0)"
    using k by (simp add: normalized_def len)
  show ?thesis
    by (simp add: getTNBfromVector_def N vec_length_def Let_def)
qed

theorem getTNB_negative_z_witness:
  "(- 2 :: real) < 0
   \<and> getTNBfromVector (smult (Vector 0 0 1) (- 2))
        = (Vector 0 1 0, Vector 0 0 (- 1), Vector 1 0 0)"
  using getTNB_negative_z [of "- 2"] by (simp add: normalize_eps_def)

text \<open>
  C10: on the zero vector \<^verbatim>\<open>getTNBfromVector\<close> raises nothing (the model has no error
  branch, as no operation of the function can raise): the normalised input is the zero
  vector, its cross product with \<open>(0,0,-1)\<close> has length 0, and the fallback branch
  returns \<open>T = (0,1,0)\<close>, \<open>N = (0,0,0)\<close>, \<open>B = (1,0,0)\<close>; this \<open>N\<close> has length 0, not 1.
\<close>

theorem getTNB_zero_vector:
  "getTNBfromVector (Vector 0 0 0) = (Vector 0 1 0, Vector 0 0 0, Vector 1 0 0)
   \<and> normalized (Vector 0 0 0) = Vector 0 0 0
   \<and> vec_length (cross (normalized (Vector 0 0 0)) (Vector 0 0 (- 1))) = 0
   \<and> vec_length (fst (snd (getTNBfromVector (Vector 0 0 0)))) = 0"
  by (simp add: getTNBfromVector_def normalized_zero vec_length_def)

section \<open>Properties of the rewriting\<close>

text \<open>
  C2, as the code has it: one round of rewriting of the axiom \<open>F++F++F\<close> under the rule
  \<open>F \<rightarrow> F-F++F-F\<close> yields a string of exactly 28 symbols: each of the three \<open>F\<close> becomes
  the eight symbols of the rule and the four \<open>+\<close> stay, 3 * 8 + 4 = 28.
\<close>

theorem expand_once_length:
  "expand koch_rules 1 koch_axiom = ''F-F++F-F++F-F++F-F++F-F++F-F''
   \<and> length (expand koch_rules 1 koch_axiom) = 28"
  by (simp add: koch_rules_def koch_axiom_def rules_get_def)

text \<open>C2 as stated fails: the string after one round does not have 22 symbols.\<close>

theorem expand_once_length_not_22:
  "length (expand koch_rules 1 koch_axiom) \<noteq> 22"
  by (simp add: koch_rules_def koch_axiom_def rules_get_def)

section \<open>Properties of the emitter\<close>

lemma walk_effect:
  "walk angle distance cs (pos, dir, vl, bm) = (pos', dir', vl', bm') \<Longrightarrow>
     take (length (verts bm)) (verts bm') = verts bm
     \<and> length (verts bm') = length (verts bm) + count_F cs
     \<and> vl' = vl @ [length (verts bm) ..< length (verts bm) + count_F cs]
     \<and> faces bm' = faces bm \<and> printed bm' = printed bm
     \<and> emitter_calls bm' = emitter_calls bm \<and> face_attempts bm' = face_attempts bm"
proof (induction cs arbitrary: pos dir vl bm)
  case Nil
  then show ?case by (simp add: count_F_def)
next
  case (Cons c cs)
  show ?case
  proof (cases "c = CHR ''F''")
    case True
    define np where "np = vadd pos (smult dir distance)"
    define bm1 where "bm1 = bm\<lparr>verts := verts bm @ [np]\<rparr>"
    from Cons.prems True
    have w: "walk angle distance cs (np, dir, vl @ [length (verts bm)], bm1) = (pos', dir', vl', bm')"
      by (simp add: verts_new_def np_def bm1_def Let_def)
    from Cons.IH [OF w]
    have ih: "take (Suc (length (verts bm))) (verts bm') = verts bm @ [np]"
      "length (verts bm') = Suc (length (verts bm)) + count_F cs"
      "vl' = (vl @ [length (verts bm)]) @ [Suc (length (verts bm)) ..< Suc (length (verts bm)) + count_F cs]"
      "faces bm' = faces bm" "printed bm' = printed bm"
      "emitter_calls bm' = emitter_calls bm" "face_attempts bm' = face_attempts bm"
      by (simp_all add: bm1_def)
    have "take (length (verts bm)) (take (Suc (length (verts bm))) (verts bm')) = verts bm"
      by (simp only: ih(1)) simp
    then have t: "take (length (verts bm)) (verts bm') = verts bm"
      by (simp add: min_def)
    have cntS: "count_F (c # cs) = Suc (count_F cs)"
      using True by (simp add: count_F_def)
    have u: "[length (verts bm) ..< length (verts bm) + Suc (count_F cs)]
             = length (verts bm) # [Suc (length (verts bm)) ..< Suc (length (verts bm)) + count_F cs]"
      by (simp add: upt_rec)
    have vl: "vl' = vl @ [length (verts bm) ..< length (verts bm) + count_F (c # cs)]"
      unfolding cntS u using ih(3) by simp
    have len: "length (verts bm') = length (verts bm) + count_F (c # cs)"
      unfolding cntS using ih(2) by simp
    show ?thesis
      using t len vl ih(4-7) by blast
  next
    case False
    then have cnt: "count_F (c # cs) = count_F cs"
      by (simp add: count_F_def)
    from Cons.prems False obtain dir1 where
      w: "walk angle distance cs (pos, dir1, vl, bm) = (pos', dir', vl', bm')"
      by (auto split: if_splits)
    from Cons.IH [OF w] show ?thesis
      by (simp add: cnt)
  qed
qed

lemma twist_effect:
  "verts bm = pre @ pts \<Longrightarrow>
     twist R P [length pre ..< length pre + length pts] bm
       = bm\<lparr>verts := pre @ map (\<lambda>v. vadd (matvec R (vsub v P)) P) pts\<rparr>"
proof (induction pts arbitrary: pre bm)
  case Nil
  then show ?case by simp
next
  case (Cons p ps)
  define q where "q = vadd (matvec R (vsub p P)) P"
  have u: "[length pre ..< length pre + length (p # ps)]
           = length pre # [length (pre @ [q]) ..< length (pre @ [q]) + length ps]"
    by (simp add: upt_rec)
  have v: "verts (bm\<lparr>verts := (verts bm)[length pre := q]\<rparr>) = (pre @ [q]) @ ps"
    using Cons.prems by simp
  have "twist R P [length pre ..< length pre + length (p # ps)] bm
        = twist R P [length (pre @ [q]) ..< length (pre @ [q]) + length ps]
            (bm\<lparr>verts := (verts bm)[length pre := q]\<rparr>)"
    unfolding u using Cons.prems by (simp add: q_def Let_def)
  also have "\<dots> = bm\<lparr>verts := (pre @ [q]) @ map (\<lambda>v. vadd (matvec R (vsub v P)) P) ps\<rparr>"
    using Cons.IH [OF v] by simp
  finally show ?case by (simp add: q_def)
qed

lemma Rotation_isometry: "dot (matvec (Rotation t axis) v) (matvec (Rotation t axis) v) = dot v v"
proof (cases "normalize_eps < dot axis axis")
  case False
  then show ?thesis by (cases v) (simp add: Rotation_def)
next
  case True
  obtain x y z where n: "normalized axis = Vector x y z"
    by (cases "normalized axis") auto
  obtain a b e where v: "v = Vector a b e"
    by (cases v) auto
  have "dot (normalized axis) (normalized axis) = 1"
    using True by (rule dot_normalized_self)
  then have unit: "x * x + y * y + z * z = 1"
    by (simp add: n)
  define c where "c = cos t"
  define s where "s = sin t"
  have cs: "c * c + s * s = 1"
    using sin_cos_squared_add2 [of t] by (simp add: c_def s_def power2_eq_square)
  have "(a * (x * x * (1 - c) + c) + b * (x * y * (1 - c) - z * s) + e * (x * z * (1 - c) + y * s)) *
        (a * (x * x * (1 - c) + c) + b * (x * y * (1 - c) - z * s) + e * (x * z * (1 - c) + y * s)) +
        (a * (x * y * (1 - c) + z * s) + b * (y * y * (1 - c) + c) + e * (y * z * (1 - c) - x * s)) *
        (a * (x * y * (1 - c) + z * s) + b * (y * y * (1 - c) + c) + e * (y * z * (1 - c) - x * s)) +
        (a * (x * z * (1 - c) - y * s) + b * (y * z * (1 - c) + x * s) + e * (z * z * (1 - c) + c)) *
        (a * (x * z * (1 - c) - y * s) + b * (y * z * (1 - c) + x * s) + e * (z * z * (1 - c) + c))
        = a * a + b * b + e * e"
    using unit cs by algebra
  then show ?thesis
    using True by (simp add: Rotation_def n v Let_def c_def s_def algebra_simps)
qed

lemma walk_final_position:
  "walk angle distance cs (pos, dir, vl, bm) = (pos', dir', vl', bm') \<Longrightarrow>
     pos' = last (pos # drop (length (verts bm)) (verts bm'))"
proof (induction cs arbitrary: pos dir vl bm)
  case Nil
  then show ?case by simp
next
  case (Cons c cs)
  show ?case
  proof (cases "c = CHR ''F''")
    case True
    define np where "np = vadd pos (smult dir distance)"
    define bm1 where "bm1 = bm\<lparr>verts := verts bm @ [np]\<rparr>"
    from Cons.prems True
    have w: "walk angle distance cs (np, dir, vl @ [length (verts bm)], bm1) = (pos', dir', vl', bm')"
      by (simp add: verts_new_def np_def bm1_def Let_def)
    from Cons.IH [OF w]
    have ih: "pos' = last (np # drop (Suc (length (verts bm))) (verts bm'))"
      by (simp add: bm1_def)
    from walk_effect [OF w]
    have tk: "take (Suc (length (verts bm))) (verts bm') = verts bm @ [np]"
      by (simp add: bm1_def)
    have "verts bm' = take (Suc (length (verts bm))) (verts bm') @ drop (Suc (length (verts bm))) (verts bm')"
      by simp
    then have "verts bm' = (verts bm @ [np]) @ drop (Suc (length (verts bm))) (verts bm')"
      by (simp only: tk)
    then have "drop (length (verts bm)) (verts bm')
         = drop (length (verts bm)) ((verts bm @ [np]) @ drop (Suc (length (verts bm))) (verts bm'))"
      by simp
    then have "drop (length (verts bm)) (verts bm') = np # drop (Suc (length (verts bm))) (verts bm')"
      by simp
    with ih show ?thesis by simp
  next
    case False
    from Cons.prems False obtain dir1 where
      w: "walk angle distance cs (pos, dir1, vl, bm) = (pos', dir', vl', bm')"
      by (auto split: if_splits)
    from Cons.IH [OF w] show ?thesis .
  qed
qed

lemma vec_length_Rotation: "vec_length (matvec (Rotation t axis) v) = vec_length v"
  by (simp add: vec_length_def Rotation_isometry)

lemma vsub_vadd_cancel: "vsub (vadd a b) b = a"
  by (cases a; cases b) simp

lemma draw_lsystem_result:
  assumes w: "walk angle distance (expand rules (nat iterations) axiom)
                (position, Vector 0 1 0, [], bm\<lparr>emitter_calls := emitter_calls bm + 1\<rparr>)
              = (c, dir, vl, bm1)"
  shows "draw_lsystem accepts bm position axiom rules iterations angle distance rotation_angle =
     Inr (if length vl > 2 then
            (if accepts (verts bm1) (faces bm) vl
             then bm1\<lparr>face_attempts := face_attempts bm + 1, faces := faces bm @ [vl]\<rparr>
             else bm1\<lparr>face_attempts := face_attempts bm + 1,
                      printed := printed bm @ [''Could not create a face with the given vertices.'']\<rparr>)
            \<lparr>verts := verts bm @
                map (\<lambda>v. vadd (matvec (Rotation (radians rotation_angle) (normalized c)) (vsub v c)) c)
                    (drop (length (verts bm)) (verts bm1))\<rparr>
          else bm1)"
proof -
  define raw where "raw = drop (length (verts bm)) (verts bm1)"
  define k where "k = length (verts bm)"
  note e = walk_effect [OF w]
  have tk: "take (length (verts bm)) (verts bm1) = verts bm"
    using e by simp
  have "verts bm1 = take (length (verts bm)) (verts bm1) @ raw"
    by (simp add: raw_def)
  then have v1: "verts bm1 = verts bm @ raw"
    by (simp only: tk)
  have lr: "length vl = length raw"
    using e v1 by simp
  have vl: "vl = [length (verts bm) ..< length (verts bm) + length raw]"
    using e lr by simp
  have f: "faces bm1 = faces bm" "printed bm1 = printed bm" "face_attempts bm1 = face_attempts bm"
    using e by simp_all
  have tw: "\<And>b. verts b = verts bm @ raw \<Longrightarrow>
     twist (Rotation (radians rotation_angle) (normalized c)) c vl b
       = b\<lparr>verts := verts bm @
            map (\<lambda>v. vadd (matvec (Rotation (radians rotation_angle) (normalized c)) (vsub v c)) c) raw\<rparr>"
    unfolding vl by (rule twist_effect)
  show ?thesis
    unfolding draw_lsystem_def w Let_def raw_def [symmetric]
    by (simp add: faces_new_def f tw v1)
qed

text \<open>
  C1, as the code has it. The walk reassigns \<^verbatim>\<open>position\<close>, so the twist reads the position \<open>c\<close>
  of the cursor after the walk: the last emitted vertex, or \<open>origin\<close> when none was emitted.
  For every call of \<^verbatim>\<open>draw_lsystem\<close>, when more than 2 vertices were emitted, the twist is
  the rotation by \<open>twistAngle\<close> degrees about the axis \<open>normalize(c)\<close>, applied to every
  emitted vertex as \<open>(vertex - c)\<close> rotated, then \<open>+ c\<close>; when at most 2 vertices were emitted
  no twist is applied. The rotation pivots around \<open>c\<close>, and the distance of every emitted
  vertex from \<open>c\<close> is unchanged by the twist. Below, the emitted vertices before the twist
  are the vertices that the walk appended to the mesh.
\<close>

theorem draw_lsystem_twist_about_cursor:
  "(case walk angle distance (expand rules (nat iterations) axiom)
           (origin, Vector 0 1 0, [], bm\<lparr>emitter_calls := emitter_calls bm + 1\<rparr>) of
      (c, dir, vert_list, bm1) \<Rightarrow>
        (\<exists>bm'. draw_lsystem accepts bm origin axiom rules iterations angle distance twistAngle = Inr bm'
           \<and> c = last (origin # drop (length (verts bm)) (verts bm1))
           \<and> verts bm' = verts bm @
               (if length vert_list > 2
                then map (\<lambda>v. vadd (matvec (Rotation (radians twistAngle) (normalized c)) (vsub v c)) c)
                       (drop (length (verts bm)) (verts bm1))
                else drop (length (verts bm)) (verts bm1))
           \<and> map (\<lambda>v. vec_length (vsub v c)) (drop (length (verts bm)) (verts bm'))
               = map (\<lambda>v. vec_length (vsub v c)) (drop (length (verts bm)) (verts bm1))))"
proof -
  obtain c dir vl bm1 where
    w: "walk angle distance (expand rules (nat iterations) axiom)
          (origin, Vector 0 1 0, [], bm\<lparr>emitter_calls := emitter_calls bm + 1\<rparr>) = (c, dir, vl, bm1)"
    by (metis prod_cases4)
  define raw where "raw = drop (length (verts bm)) (verts bm1)"
  have tk: "take (length (verts bm)) (verts bm1) = verts bm"
    using walk_effect [OF w] by simp
  have "verts bm1 = take (length (verts bm)) (verts bm1) @ raw"
    by (simp add: raw_def)
  then have v1: "verts bm1 = verts bm @ raw"
    by (simp only: tk)
  have c: "c = last (origin # raw)"
    using walk_final_position [OF w] by (simp add: raw_def)
  show ?thesis
    unfolding w prod.case raw_def [symmetric] draw_lsystem_result [OF w] raw_def [symmetric]
    using c v1
    by (simp add: vsub_vadd_cancel vec_length_Rotation comp_def)
qed

text \<open>
  C1 as stated fails for a walk that does not return to its start. From the origin
  \<open>(3,0,0)\<close> the string \<open>FFFF\<close> with step 1 emits \<open>(3,1,0)\<close>, \<open>(3,2,0)\<close>, \<open>(3,3,0)\<close>, \<open>(3,4,0)\<close> and
  leaves the cursor at \<open>(3,4,0)\<close>. With a twist of 180 degrees the rotation about
  \<open>normalize(origin)\<close> with pivot \<open>origin\<close> would move the first vertex to \<open>(3,-1,0)\<close>; the code
  moves it to \<open>(3/25, 79/25, 0)\<close>, and its distance from the origin, 1 before the twist,
  is not 1 afterwards.
\<close>

lemma sqrt_25: "sqrt 25 = 5"
proof -
  have "sqrt (5 * 5) = \<bar>5\<bar>" by (rule real_sqrt_abs2)
  then show ?thesis by simp
qed

lemma walk_FFFF:
  "walk 60 1 (expand no_rules (nat 0) ''FFFF'')
     (Vector 3 0 0, Vector 0 1 0, [], bmesh_new\<lparr>emitter_calls := emitter_calls bmesh_new + 1\<rparr>)
   = (Vector 3 4 0, Vector 0 1 0, [0, 1, 2, 3],
      \<lparr>verts = [Vector 3 1 0, Vector 3 2 0, Vector 3 3 0, Vector 3 4 0], faces = [], printed = [],
       emitter_calls = 1, face_attempts = 0\<rparr>)"
  by (simp add: bmesh_new_def verts_new_def Let_def eval_nat_numeral)

lemma Rotation_pi_3_4:
  "Rotation (radians 180) (normalized (Vector 3 4 0))
   = Matrix (Vector (- 7 / 25) (24 / 25) 0) (Vector (24 / 25) (7 / 25) 0) (Vector 0 0 (- 1))"
proof -
  have len: "vec_length (Vector 3 4 0) = 5"
    by (simp add: vec_length_def sqrt_25)
  have n: "normalized (Vector 3 4 0) = Vector (3 / 5) (4 / 5) 0"
    by (simp add: normalized_def len normalize_eps_def)
  have len1: "vec_length (Vector (3 / 5) (4 / 5) 0) = 1"
    by (simp add: vec_length_def)
  have n1: "normalized (Vector (3 / 5) (4 / 5) 0) = Vector (3 / 5) (4 / 5) 0"
    using len1 by (rule normalized_unit)
  have big: "normalize_eps < dot (Vector (3 / 5) (4 / 5) 0) (Vector (3 / 5) (4 / 5) 0)"
    by (simp add: normalize_eps_def)
  show ?thesis
    unfolding n using big by (simp add: Rotation_def n1 radians_def Let_def)
qed

lemma draw_FFFF:
  "draw_lsystem accept_all bmesh_new (Vector 3 0 0) ''FFFF'' no_rules 0 60 1 180
   = Inr \<lparr>verts = [Vector (3 / 25) (79 / 25) 0, Vector (27 / 25) (86 / 25) 0,
                   Vector (51 / 25) (93 / 25) 0, Vector 3 4 0],
          faces = [ [0, 1, 2, 3] ], printed = [], emitter_calls = 1, face_attempts = 1\<rparr>"
  using draw_lsystem_result [OF walk_FFFF, of accept_all 180]
  by (simp add: Rotation_pi_3_4 accept_all_def bmesh_new_def)

lemma Rotation_pi_x:
  "Rotation (radians 180) (normalized (Vector 3 0 0))
   = Matrix (Vector 1 0 0) (Vector 0 (- 1) 0) (Vector 0 0 (- 1))"
proof -
  have len: "vec_length (Vector 3 0 0) = 3"
    by (simp add: vec_length_def)
  have n: "normalized (Vector 3 0 0) = Vector 1 0 0"
    by (simp add: normalized_def len normalize_eps_def)
  have len1: "vec_length (Vector 1 0 0) = 1"
    by (simp add: vec_length_def)
  have n1: "normalized (Vector 1 0 0) = Vector 1 0 0"
    using len1 by (rule normalized_unit)
  have big: "normalize_eps < dot (Vector 1 0 0) (Vector 1 0 0)"
    by (simp add: normalize_eps_def)
  show ?thesis
    unfolding n using big by (simp add: Rotation_def n1 radians_def Let_def)
qed

theorem draw_lsystem_twist_not_about_origin:
  "walk 60 1 (expand no_rules (nat 0) ''FFFF'')
     (Vector 3 0 0, Vector 0 1 0, [], bmesh_new\<lparr>emitter_calls := emitter_calls bmesh_new + 1\<rparr>)
   = (Vector 3 4 0, Vector 0 1 0, [0, 1, 2, 3],
      \<lparr>verts = [Vector 3 1 0, Vector 3 2 0, Vector 3 3 0, Vector 3 4 0], faces = [], printed = [],
       emitter_calls = 1, face_attempts = 0\<rparr>)
   \<and> draw_lsystem accept_all bmesh_new (Vector 3 0 0) ''FFFF'' no_rules 0 60 1 180
   = Inr \<lparr>verts = [Vector (3 / 25) (79 / 25) 0, Vector (27 / 25) (86 / 25) 0,
                   Vector (51 / 25) (93 / 25) 0, Vector 3 4 0],
          faces = [ [0, 1, 2, 3] ], printed = [], emitter_calls = 1, face_attempts = 1\<rparr>
   \<and> vadd (matvec (Rotation (radians 180) (normalized (Vector 3 0 0)))
              (vsub (Vector 3 1 0) (Vector 3 0 0))) (Vector 3 0 0) = Vector 3 (- 1) 0
   \<and> vec_length (vsub (Vector 3 1 0) (Vector 3 0 0)) = 1
   \<and> vec_length (vsub (Vector (3 / 25) (79 / 25) 0) (Vector 3 0 0)) \<noteq> 1"
proof -
  have "vec_length (vsub (Vector (3 / 25) (79 / 25) 0) (Vector 3 0 0)) \<noteq> 1"
    by (simp add: vec_length_def real_sqrt_eq_1_iff [simplified])
  then show ?thesis
    by (simp only: walk_FFFF draw_FFFF Rotation_pi_x) (simp add: vec_length_def)
qed


text \<open>
  C9: in \<^verbatim>\<open>draw_lsystem\<close> the vertex list holds all the vertices of the call in emission
  order (the indices of the vertices appended to the mesh, one for each \<open>F\<close>). Whenever it
  has more than 2 vertices, \<^verbatim>\<open>bm.faces.new\<close> is called exactly once. If the backend builds
  the face, the face added is the whole vertex list. If the backend rejects it, the
  failure is caught: the message is printed, no face is added, the vertices stay in the
  mesh. In every case the call returns normally, so that the loops of \<^verbatim>\<open>geometry\<close> go on.
\<close>

theorem draw_lsystem_face_attempt:
  "(case walk angle distance (expand rules (nat iterations) axiom)
           (position, Vector 0 1 0, [], bm\<lparr>emitter_calls := emitter_calls bm + 1\<rparr>) of
      (c, dir, vert_list, bm1) \<Rightarrow>
        (\<exists>bm'. draw_lsystem accepts bm position axiom rules iterations angle distance rotation_angle = Inr bm'
           \<and> vert_list = [length (verts bm) ..< length (verts bm) + count_F (expand rules (nat iterations) axiom)]
           \<and> length (verts bm') = length (verts bm) + length vert_list
           \<and> (if length vert_list > 2
               then face_attempts bm' = face_attempts bm + 1
                    \<and> (if accepts (verts bm1) (faces bm) vert_list
                        then faces bm' = faces bm @ [vert_list] \<and> printed bm' = printed bm
                        else faces bm' = faces bm
                             \<and> printed bm' = printed bm @ [''Could not create a face with the given vertices.''])
               else face_attempts bm' = face_attempts bm \<and> faces bm' = faces bm
                    \<and> printed bm' = printed bm)))"
proof -
  obtain c dir vl bm1 where
    w: "walk angle distance (expand rules (nat iterations) axiom)
          (position, Vector 0 1 0, [], bm\<lparr>emitter_calls := emitter_calls bm + 1\<rparr>) = (c, dir, vl, bm1)"
    by (metis prod_cases4)
  note e = walk_effect [OF w]
  have vl: "vl = [length (verts bm) ..< length (verts bm) + count_F (expand rules (nat iterations) axiom)]"
    using e by simp
  have len: "length (verts bm1) = length (verts bm) + length vl"
    using e by simp
  have f: "faces bm1 = faces bm" "printed bm1 = printed bm" "face_attempts bm1 = face_attempts bm"
    using e by simp_all
  have lraw: "length (drop (length (verts bm)) (verts bm1)) = length vl"
    using len by simp
  show ?thesis
    unfolding w prod.case draw_lsystem_result [OF w]
    using vl len f lraw by simp
qed

section \<open>Properties of the placement\<close>

text \<open>
  C5: for every flower index \<open>i\<close> below \<open>flowerCount\<close> (and a base radius that is not zero,
  as the division by its square needs), the anchor is
  \<open>p0 = (r0 * cos theta, r0 * sin theta, z0)\<close> with \<open>r0 = (i / flowerCount) * baseConeRadius\<close>,
  \<open>theta = i * GOLDEN_ANGLE\<close>, \<open>GOLDEN_ANGLE = pi * (3 - sqrt 5)\<close> and
  \<open>z0 = coneHeight / 2 - (coneHeight / baseConeRadius\<^sup>2) * r0\<^sup>2\<close>; the angles of the flowers
  \<open>i\<close> and \<open>i + 1\<close> differ by exactly \<open>GOLDEN_ANGLE\<close>, hence by \<open>GOLDEN_ANGLE\<close> modulo \<open>2 * pi\<close>.
\<close>

theorem flower_anchor_formula:
  assumes "i < self_n self" and "self_r0 self \<noteq> 0"
  shows "flower_anchor self i =
           Inr (real i / real (self_n self),
                Vector (real i / real (self_n self) * self_r0 self * cos (real i * GOLDEN_ANGLE))
                       (real i / real (self_n self) * self_r0 self * sin (real i * GOLDEN_ANGLE))
                       (self_h0 self / 2
                        - self_h0 self / (self_r0 self)\<^sup>2
                          * (real i / real (self_n self) * self_r0 self)\<^sup>2))
         \<and> GOLDEN_ANGLE = pi * (3 - sqrt 5)
         \<and> theta_of (Suc i) - theta_of i = GOLDEN_ANGLE"
proof -
  have d1: "py_div (real i) (real (self_n self)) = Inr (real i / real (self_n self))"
    using assms(1) by (simp add: py_div_def)
  have d2: "py_div (self_h0 self) (self_r0 self * self_r0 self)
              = Inr (self_h0 self / (self_r0 self)\<^sup>2)"
    using assms(2) by (simp add: py_div_def power2_eq_square)
  have z: "q * r * r = q * r\<^sup>2" for q r :: real
    by (simp add: power2_eq_square)
  have anchor: "flower_anchor self i =
           Inr (real i / real (self_n self),
                Vector (real i / real (self_n self) * self_r0 self * cos (real i * GOLDEN_ANGLE))
                       (real i / real (self_n self) * self_r0 self * sin (real i * GOLDEN_ANGLE))
                       (self_h0 self / 2
                        - self_h0 self / (self_r0 self)\<^sup>2
                          * (real i / real (self_n self) * self_r0 self)\<^sup>2))"
    unfolding flower_anchor_def d1 d2 Let_def sum.case theta_of_def z ..
  have step: "theta_of (Suc i) - theta_of i = GOLDEN_ANGLE"
    by (simp add: theta_of_def algebra_simps)
  show ?thesis
    using anchor step GOLDEN_ANGLE_def by blast
qed

theorem flower_anchor_formula_witness:
  "(1::nat) < self_n default_config \<and> self_r0 default_config \<noteq> 0
   \<and> flower_anchor default_config 1
       = Inr (1 / 200, Vector (cos GOLDEN_ANGLE / 20) (sin GOLDEN_ANGLE / 20) (19999 / 800))
   \<and> theta_of (Suc 1) - theta_of 1 = GOLDEN_ANGLE"
  using flower_anchor_formula [of 1 default_config]
  by (simp add: default_config_def power2_eq_square)

lemma flower_anchor_t0:
  assumes "flower_anchor self i = Inr (t0, p0)"
  shows "t0 = real i / real (self_n self)"
  using assms
  by (auto simp: flower_anchor_def py_div_def Let_def split: if_splits)

text \<open>
  C3, as the code has it: for every flower \<open>i\<close> and petal \<open>j\<close>, with \<open>t0 = i / flowerCount\<close>
  the value that the flower computed, the local petal position \<open>p1\<close> is
  \<open>(r1 * cos theta, r1 * sin theta, z)\<close> with
  \<open>r1 = (0.4 + 0.6 * t0) * (j / petalsPerFlower) * interPetalRadius\<close>,
  \<open>theta = j * GOLDEN_ANGLE\<close> and
  \<open>z = flowerDistance - (flowerDistance / interPetalRadius\<^sup>2) * r1\<^sup>2\<close>: the constant term of
  the paraboloid is \<open>flowerDistance\<close>, where the flower anchor has half of the cone height.
\<close>

theorem petal_local_formula:
  assumes "flower_anchor self i = Inr (t0, p0)" and "j < self_m self" and "self_r1 self \<noteq> 0"
  shows "t0 = real i / real (self_n self)
         \<and> petal_local self t0 j =
           Inr (Vector ((0.4 + 0.6 * t0) * (real j / real (self_m self)) * self_r1 self * cos (real j * GOLDEN_ANGLE))
                       ((0.4 + 0.6 * t0) * (real j / real (self_m self)) * self_r1 self * sin (real j * GOLDEN_ANGLE))
                       (self_h1 self
                        - self_h1 self / (self_r1 self)\<^sup>2
                          * ((0.4 + 0.6 * t0) * (real j / real (self_m self)) * self_r1 self)\<^sup>2))"
proof -
  have d1: "py_div (real j) (real (self_m self)) = Inr (real j / real (self_m self))"
    using assms(2) by (simp add: py_div_def)
  have d2: "py_div (self_h1 self) (self_r1 self * self_r1 self)
              = Inr (self_h1 self / (self_r1 self)\<^sup>2)"
    using assms(3) by (simp add: py_div_def power2_eq_square)
  have z: "q * r * r = q * r\<^sup>2" for q r :: real
    by (simp add: power2_eq_square)
  have "petal_local self t0 j =
           Inr (Vector ((0.4 + 0.6 * t0) * (real j / real (self_m self)) * self_r1 self * cos (real j * GOLDEN_ANGLE))
                       ((0.4 + 0.6 * t0) * (real j / real (self_m self)) * self_r1 self * sin (real j * GOLDEN_ANGLE))
                       (self_h1 self
                        - self_h1 self / (self_r1 self)\<^sup>2
                          * ((0.4 + 0.6 * t0) * (real j / real (self_m self)) * self_r1 self)\<^sup>2))"
    unfolding petal_local_def d1 d2 Let_def sum.case theta_of_def z ..
  with flower_anchor_t0 [OF assms(1)] show ?thesis by blast
qed

lemma flower_anchor_default_100:
  "flower_anchor default_config 100 = Inr (1 / 2, Vector (5 * cos (100 * GOLDEN_ANGLE)) (5 * sin (100 * GOLDEN_ANGLE)) (25 / 2))"
  by (simp add: flower_anchor_def py_div_def Let_def theta_of_def default_config_def)

theorem petal_local_formula_witness:
  "flower_anchor default_config 100
     = Inr (1 / 2, Vector (5 * cos (100 * GOLDEN_ANGLE)) (5 * sin (100 * GOLDEN_ANGLE)) (25 / 2))
   \<and> (5::nat) < self_m default_config \<and> self_r1 default_config \<noteq> 0
   \<and> petal_local default_config (1 / 2) 5
       = Inr (Vector (7 * cos (5 * GOLDEN_ANGLE) / 2) (7 * sin (5 * GOLDEN_ANGLE) / 2) (351 / 200))"
  using petal_local_formula [OF flower_anchor_default_100, of 5] flower_anchor_default_100
  by (simp add: default_config_def power2_eq_square)

text \<open>
  C3 as stated fails: for the first petal of the first flower of the program's
  configuration the code gives \<open>z = 2\<close>, the flower distance, where the formula of the
  statement, \<open>flowerDistance / 2 - (flowerDistance / interPetalRadius\<^sup>2) * r1\<^sup>2\<close>, gives 1.
\<close>

theorem petal_local_z_not_halved:
  "flower_anchor default_config 0 = Inr (0, Vector 0 0 25)
   \<and> petal_local default_config 0 0 = Inr (Vector 0 0 2)
   \<and> self_h1 default_config / 2
       - self_h1 default_config / (self_r1 default_config)\<^sup>2
         * ((0.4 + 0.6 * 0) * (real 0 / real (self_m default_config)) * self_r1 default_config)\<^sup>2 = 1"
  by (simp add: flower_anchor_def petal_local_def py_div_def Let_def theta_of_def default_config_def)

section \<open>Properties of a whole run\<close>

lemma count_F_append: "count_F (xs @ ys) = count_F xs + count_F ys"
  by (simp add: count_F_def)

lemma count_F_rules_get: "count_F (rules_get koch_rules c) = 4 * count_F [c]"
  by (simp add: rules_get_def koch_rules_def count_F_def)

lemma count_F_rewrite: "count_F (rewrite koch_rules acc cs) = count_F acc + 4 * count_F cs"
proof (induction cs arbitrary: acc)
  case Nil
  then show ?case by (simp add: count_F_def)
next
  case (Cons c cs)
  have "count_F (c # cs) = count_F [c] + count_F cs"
    by (simp add: count_F_def)
  then show ?case
    by (simp add: Cons.IH count_F_append count_F_rules_get)
qed

lemma count_F_expand: "count_F (expand koch_rules n cs) = 4 ^ n * count_F cs"
proof (induction n arbitrary: cs)
  case 0
  then show ?case by simp
next
  case (Suc n)
  have "count_F (rewrite koch_rules [] cs) = 4 * count_F cs"
    by (simp add: count_F_rewrite) (simp add: count_F_def)
  then show ?case
    by (simp add: Suc.IH)
qed

lemma count_F_koch: "count_F (expand koch_rules 4 koch_axiom) = 768"
  by (simp add: count_F_expand) (simp add: count_F_def koch_axiom_def)

lemma draw_koch:
  "\<exists>bm'. draw_lsystem accepts bm p koch_axiom koch_rules 4 angle distance rot = Inr bm'
         \<and> advance 1 bm bm'"
proof -
  obtain c dir vl bm1 where
    w: "walk angle distance (expand koch_rules (nat 4) koch_axiom)
          (p, Vector 0 1 0, [], bm\<lparr>emitter_calls := emitter_calls bm + 1\<rparr>) = (c, dir, vl, bm1)"
    by (metis prod_cases4)
  note e = walk_effect [OF w]
  have vl: "length vl = 768"
    using e by (simp add: count_F_koch)
  have f: "faces bm1 = faces bm" "printed bm1 = printed bm" "face_attempts bm1 = face_attempts bm"
    "emitter_calls bm1 = emitter_calls bm + 1"
    using e by simp_all
  show ?thesis
    unfolding draw_lsystem_result [OF w]
    using vl f by (simp add: advance_def)
qed

lemma for_range_advance:
  assumes "\<And>i bm. i \<in> set js \<Longrightarrow> \<exists>bm'. body i bm = Inr bm' \<and> advance k bm bm'"
  shows "\<exists>bm'. for_range js body bm = Inr bm' \<and> advance (k * length js) bm bm'"
  using assms
proof (induction js arbitrary: bm)
  case Nil
  then show ?case by (simp add: advance_def)
next
  case (Cons j js)
  obtain bm1 where b: "body j bm = Inr bm1" "advance k bm bm1"
    using Cons.prems [of j bm] by auto
  obtain bm2 where r: "for_range js body bm1 = Inr bm2" "advance (k * length js) bm1 bm2"
    using Cons.IH [of bm1] Cons.prems by auto
  have "advance (k * length (j # js)) bm bm2"
    using b(2) r(2) by (simp add: advance_def)
  with b(1) r(1) show ?case by simp
qed

lemma petal_advance:
  assumes "j < self_m self" and "self_r1 self \<noteq> 0"
  shows "\<exists>bm'. petal accepts self t0 p0 M0 j bm = Inr bm' \<and> advance 1 bm bm'"
proof -
  obtain p1 where p1: "petal_local self t0 j = Inr p1"
    using assms by (simp add: petal_local_def py_div_def Let_def)
  show ?thesis
    unfolding petal_def p1 Let_def split_def sum.case
    by (rule draw_koch)
qed

lemma flower_advance:
  assumes "i < self_n self" and "self_r0 self \<noteq> 0" and "self_r1 self \<noteq> 0"
  shows "\<exists>bm'. flower accepts self i bm = Inr bm' \<and> advance (self_m self) bm bm'"
proof -
  obtain t0 p0 where a: "flower_anchor self i = Inr (t0, p0)"
    using assms by (simp add: flower_anchor_def py_div_def Let_def)
  have "\<exists>bm'. for_range [0..<self_m self] (petal accepts self t0 p0 M0) bm = Inr bm'
          \<and> advance (1 * length [0..<self_m self]) bm bm'" for M0
  proof (rule for_range_advance)
    fix j bm
    assume "j \<in> set [0..<self_m self]"
    then have "j < self_m self" by simp
    then show "\<exists>bm'. petal accepts self t0 p0 M0 j bm = Inr bm' \<and> advance 1 bm bm'"
      using assms(3) by (rule petal_advance)
  qed
  then show ?thesis
    unfolding flower_def a
    by (simp add: Let_def split_def)
qed

lemma geometry_advance:
  assumes "self_r0 self \<noteq> 0" and "self_r1 self \<noteq> 0"
  shows "\<exists>bm'. geometry accepts self = Inr bm' \<and> advance (self_m self * self_n self) bmesh_new bm'"
proof -
  have "\<exists>bm'. for_range [0..<self_n self] (flower accepts self) bmesh_new = Inr bm'
          \<and> advance (self_m self * length [0..<self_n self]) bmesh_new bm'"
  proof (rule for_range_advance)
    fix i bm
    assume "i \<in> set [0..<self_n self]"
    then have "i < self_n self" by simp
    then show "\<exists>bm'. flower accepts self i bm = Inr bm' \<and> advance (self_m self) bm bm'"
      using assms by (rule flower_advance)
  qed
  then show ?thesis
    by (simp add: geometry_def)
qed

text \<open>
  C8: the run with the program's configuration (200 flowers of 10 petals) returns
  normally for every backend, it has called the emitter exactly 2000 times, and its mesh
  has at most 2000 faces: every call of the emitter made one attempt to build a face,
  and each attempt added one face or printed the failure message, so the faces are fewer
  than 2000 only by the number of failed attempts.
\<close>

theorem geometry_default_run:
  "\<exists>bm. geometry accepts default_config = Inr bm
        \<and> emitter_calls bm = 2000
        \<and> face_attempts bm = 2000
        \<and> length (faces bm) \<le> 2000
        \<and> length (faces bm) + length (printed bm) = 2000"
proof -
  have "\<exists>bm'. geometry accepts default_config = Inr bm'
          \<and> advance (self_m default_config * self_n default_config) bmesh_new bm'"
    by (rule geometry_advance) (simp_all add: default_config_def)
  then show ?thesis
    by (auto simp: advance_def default_config_def bmesh_new_def)
qed

text \<open>
  C4, as the code has it: the program validates nothing. With a base radius of zero and
  at least one flower, the first division by the squared radius raises
  \<^verbatim>\<open>ZeroDivisionError\<close> in the first round of the outer loop, when the mesh is still empty.
  With zero flowers the loop body never runs: no error is raised and the empty mesh is
  returned.
\<close>

theorem geometry_zero_config:
  "(self_n self = 0 \<longrightarrow> geometry accepts self = Inr bmesh_new)
   \<and> (self_n self \<noteq> 0 \<and> self_r0 self = 0 \<longrightarrow>
        geometry accepts self = Inl (ZeroDivisionError, bmesh_new))"
proof -
  have "geometry accepts self = Inl (ZeroDivisionError, bmesh_new)"
    if n: "self_n self \<noteq> 0" and r: "self_r0 self = 0"
  proof -
    have a: "flower_anchor self 0 = Inl ZeroDivisionError"
      using n r by (simp add: flower_anchor_def py_div_def Let_def)
    have "[0..<self_n self] = 0 # [Suc 0..<self_n self]"
      using n by (simp add: upt_rec)
    then show ?thesis
      by (simp add: geometry_def flower_def a)
  qed
  then show ?thesis
    by (simp add: geometry_def)
qed

theorem geometry_zero_config_witness:
  "self_n (default_config\<lparr>self_n := 0\<rparr>) = 0
   \<and> geometry accept_all (default_config\<lparr>self_n := 0\<rparr>) = Inr bmesh_new
   \<and> self_n (default_config\<lparr>self_r0 := 0\<rparr>) \<noteq> 0
   \<and> self_r0 (default_config\<lparr>self_r0 := 0\<rparr>) = 0
   \<and> geometry accept_all (default_config\<lparr>self_r0 := 0\<rparr>) = Inl (ZeroDivisionError, bmesh_new)"
  using geometry_zero_config [of "default_config\<lparr>self_n := 0\<rparr>" accept_all]
        geometry_zero_config [of "default_config\<lparr>self_r0 := 0\<rparr>" accept_all]
  by (simp add: default_config_def)

text \<open>
  C4 as stated fails: with \<open>flowerCount = 0\<close> the run raises no error; it returns the empty
  mesh.
\<close>

theorem geometry_zero_flowers_no_error:
  "self_n (default_config\<lparr>self_n := 0\<rparr>) = 0
   \<and> geometry accept_all (default_config\<lparr>self_n := 0\<rparr>) = Inr bmesh_new"
  by (simp add: geometry_def)

end
